theory Spec2Isabelle
  imports Complex_Main "HOL-Library.AList"
begin

section \<open>The portfolio analyzer of \<^verbatim>\<open>ai_portfolio.py\<close>\<close>

text \<open>
  The class \<^verbatim>\<open>AIPortfolioAnalyzer\<close> holds a catalog of stocks (\<^verbatim>\<open>self.stocks\<close>) and two
  methods: \<^verbatim>\<open>fetch_live_data_batch\<close>, which asks \<^verbatim>\<open>yfinance\<close> for recent closing prices
  inside a bare \<^verbatim>\<open>try/except\<close>, and \<^verbatim>\<open>analyze_portfolio\<close>, which validates a weight map,
  calls the fetch, accumulates weighted statistics over the catalog and formats a report.

  Numbers. Python's floats are modelled as exact rationals (\<^typ>\<open>rat\<close>): sums, products
  and quotients are exact, and rounding to decimal places is round-half-even on the exact
  value. Rounding errors of binary floating point, infinities and NaN are outside the model.

  Dictionaries. Python dictionaries keep insertion order, and the report lists the
  breakdowns in that order, so a dictionary is an association list; storing under a key
  that is present replaces the value in place, storing under a new key appends
  (\<^const>\<open>AList.update\<close>).
\<close>

subsection \<open>The catalog\<close>

record stock =
  name :: string
  sector :: string
  beta :: rat
  return :: rat
  risk :: string
  volatility :: rat

type_synonym catalog = "(string \<times> stock) list"

definition mk_stock :: "string \<Rightarrow> string \<Rightarrow> rat \<Rightarrow> rat \<Rightarrow> string \<Rightarrow> rat \<Rightarrow> stock" where
  "mk_stock n s b r k v =
     \<lparr>name = n, sector = s, beta = b, return = r, risk = k, volatility = v\<rparr>"

text \<open>The dictionary literal of \<^verbatim>\<open>__init__\<close>, in its order.\<close>

definition stocks :: catalog where
  "stocks =
    [(''AAPL'', mk_stock ''Apple Inc.'' ''Technology'' (12/10) 15 ''Medium'' (25/100)),
     (''GOOGL'', mk_stock ''Alphabet Inc.'' ''Technology'' (13/10) 12 ''Medium'' (28/100)),
     (''MSFT'', mk_stock ''Microsoft Corp.'' ''Technology'' (11/10) 14 ''Medium'' (22/100)),
     (''NVDA'', mk_stock ''NVIDIA Corp.'' ''Technology'' (18/10) 20 ''High'' (45/100)),
     (''JPM'', mk_stock ''JPMorgan Chase'' ''Financial'' 1 12 ''Low'' (20/100)),
     (''BAC'', mk_stock ''Bank of America'' ''Financial'' (12/10) 10 ''Medium'' (25/100)),
     (''JNJ'', mk_stock ''Johnson & Johnson'' ''Healthcare'' (7/10) 8 ''Low'' (15/100)),
     (''PFE'', mk_stock ''Pfizer'' ''Healthcare'' (8/10) 6 ''Low'' (18/100)),
     (''XOM'', mk_stock ''ExxonMobil'' ''Energy'' (11/10) 8 ''Medium'' (30/100)),
     (''SPY'', mk_stock ''S&P 500 ETF'' ''Index'' 1 10 ''Low'' (15/100)),
     (''TSLA'', mk_stock ''Tesla Inc.'' ''Automotive'' 2 25 ''High'' (55/100)),
     (''AMZN'', mk_stock ''Amazon.com'' ''Consumer'' (13/10) 16 ''Medium'' (30/100))]"

subsection \<open>Rounding\<close>

text \<open>
  \<^verbatim>\<open>round(x, n)\<close> and the format \<^verbatim>\<open>:.1f\<close> both give the decimal with the stated number
  of places that is nearest to the exact value, a tie going to the even last digit.
\<close>

definition round_half_even :: "rat \<Rightarrow> int" where
  "round_half_even x =
     (let f = \<lfloor>x\<rfloor>; d = x - of_int f
      in if d < 1/2 then f else if 1/2 < d then f + 1 else if even f then f else f + 1)"

definition py_round :: "rat \<Rightarrow> nat \<Rightarrow> rat" where
  "py_round x n = of_int (round_half_even (x * 10 ^ n)) / 10 ^ n"

definition fmt_1f :: "rat \<Rightarrow> rat" where
  "fmt_1f x = py_round x 1"

subsection \<open>The live price provider and \<^verbatim>\<open>fetch_live_data_batch\<close>\<close>

datatype py_exception = KeyError | IndexError | ProviderError string

text \<open>
  What the method reads of a data frame: whether it is empty, and its \<^verbatim>\<open>Close\<close> column
  (reading the column may raise). \<^verbatim>\<open>yf.download\<close> may raise; the frame it returns is read
  whole when one symbol was asked for, and by ticker (which may raise) otherwise.
\<close>

datatype df = DF (empty: bool) (Close: "py_exception + rat list")

datatype hist = Hist (whole: df) (ticker: "string \<Rightarrow> py_exception + df")

type_synonym provider = "string list \<Rightarrow> py_exception + hist"

text \<open>
  A quotient of two numpy floats whose divisor is zero is an infinity or NaN, with a warning
  and no exception: \<open>NonFinite\<close>.
\<close>

datatype pyfloat = Fin rat | NonFinite

record live_point =
  price :: "pyfloat option"
  daily_change :: "pyfloat option"

type_synonym live_data = "(string \<times> live_point) list"

definition absent :: live_point where
  "absent = \<lparr>price = None, daily_change = None\<rparr>"

text \<open>
  \<^verbatim>\<open>column.iloc[i]\<close> reads by position, from the end for \<open>i < 0\<close>, and raises
  \<^verbatim>\<open>IndexError\<close> where the column has no such row.
\<close>

definition iloc :: "'a list \<Rightarrow> int \<Rightarrow> py_exception + 'a" where
  "iloc rows i =
     (if i < 0 then
        (if - i \<le> int (length rows) then Inr (rows ! (length rows - nat (- i))) else Inl IndexError)
      else if i < int (length rows) then Inr (rows ! nat i)
      else Inl IndexError)"

text \<open>\<^verbatim>\<open>hist_data[symbol] if len(symbols) > 1 else hist_data\<close>, with \<open>n\<close> for \<^verbatim>\<open>len(symbols)\<close>.\<close>

definition frame_of :: "nat \<Rightarrow> hist \<Rightarrow> string \<Rightarrow> py_exception + df" where
  "frame_of n hist_data symbol = (if 1 < n then ticker hist_data symbol else Inr (whole hist_data))"

text \<open>
  The loop inside \<^verbatim>\<open>try\<close>. It returns the dictionary as filled so far and the exception
  that stopped it, if one did. \<open>n\<close> is \<^verbatim>\<open>len(symbols)\<close>.
\<close>

fun fetch_loop :: "nat \<Rightarrow> hist \<Rightarrow> string list \<Rightarrow> live_data \<Rightarrow> live_data \<times> py_exception option" where
  "fetch_loop n hist_data [] data = (data, None)"
| "fetch_loop n hist_data (symbol # rest) data =
     (case frame_of n hist_data symbol of
        Inl e \<Rightarrow> (data, Some e)
      | Inr d \<Rightarrow>
          if \<not> empty d then
            (case Close d of
               Inl e \<Rightarrow> (data, Some e)
             | Inr closes \<Rightarrow>
                 (case iloc closes (- 1) of
                    Inl e \<Rightarrow> (data, Some e)
                  | Inr last_close \<Rightarrow>
                      (case iloc closes 0 of
                         Inl e \<Rightarrow> (data, Some e)
                       | Inr prev_close \<Rightarrow>
                           let p = py_round last_close 2;
                               c = (if prev_close = 0 then NonFinite
                                    else Fin (py_round (((p - prev_close) / prev_close) * 100) 2))
                           in fetch_loop n hist_data rest
                                (AList.update symbol
                                   \<lparr>price = Some (Fin p), daily_change = Some c\<rparr> data))))
          else fetch_loop n hist_data rest (AList.update symbol absent data))"

text \<open>The \<^verbatim>\<open>except\<close> branch: every requested symbol is stored as absent.\<close>

definition mark_absent :: "string list \<Rightarrow> live_data \<Rightarrow> live_data" where
  "mark_absent symbols data = fold (\<lambda>symbol d. AList.update symbol absent d) symbols data"

definition fetch_live_data_batch :: "provider \<Rightarrow> string list \<Rightarrow> py_exception + live_data" where
  "fetch_live_data_batch download symbols =
     (case download symbols of
        Inl e \<Rightarrow> Inr (mark_absent symbols [])
      | Inr hist_data \<Rightarrow>
          (case fetch_loop (length symbols) hist_data symbols [] of
             (data, None) \<Rightarrow> Inr data
           | (data, Some e) \<Rightarrow> Inr (mark_absent symbols data)))"

subsection \<open>\<^verbatim>\<open>analyze_portfolio\<close>\<close>

type_synonym portfolio = "(string \<times> rat) list"

record acc =
  weighted_beta :: rat
  weighted_return :: rat
  weighted_volatility :: rat
  sectors :: "(string \<times> rat) list"
  risk_levels :: "(string \<times> rat) list"

definition init_acc :: acc where
  "init_acc = \<lparr>weighted_beta = 0, weighted_return = 0, weighted_volatility = 0,
                sectors = [], risk_levels = []\<rparr>"

text \<open>\<^verbatim>\<open>d[k] = d.get(k, 0) + weight\<close>\<close>

definition add_weight :: "string \<Rightarrow> rat \<Rightarrow> (string \<times> rat) list \<Rightarrow> (string \<times> rat) list" where
  "add_weight k weight d =
     AList.update k ((case map_of d k of None \<Rightarrow> 0 | Some v \<Rightarrow> v) + weight) d"

text \<open>The \<^verbatim>\<open>for symbol, weight in portfolio.items()\<close> loop.\<close>

fun portfolio_loop :: "catalog \<Rightarrow> rat \<Rightarrow> portfolio \<Rightarrow> acc \<Rightarrow> acc" where
  "portfolio_loop cat total_weight [] a = a"
| "portfolio_loop cat total_weight ((symbol, weight) # rest) a =
     (case map_of cat symbol of
        None \<Rightarrow> portfolio_loop cat total_weight rest a
      | Some stock \<Rightarrow>
          let weight_pct = weight / total_weight
          in portfolio_loop cat total_weight rest
               (a\<lparr>weighted_beta := weighted_beta a + beta stock * weight_pct,
                  weighted_return := weighted_return a + return stock * weight_pct,
                  weighted_volatility := weighted_volatility a + volatility stock * weight_pct,
                  sectors := add_weight (sector stock) weight (sectors a),
                  risk_levels := add_weight (risk stock) weight (risk_levels a)\<rparr>))"

text \<open>The percentage a breakdown line shows, before it is formatted.\<close>

definition percent :: "rat \<Rightarrow> rat \<Rightarrow> rat" where
  "percent total_weight weight = (weight / total_weight) * 100"

definition breakdown :: "rat \<Rightarrow> (string \<times> rat) list \<Rightarrow> (string \<times> rat) list" where
  "breakdown total_weight d = map (\<lambda>(k, weight). (k, fmt_1f (percent total_weight weight))) d"

text \<open>
  The report is a string; the record holds the values its lines show, in the order of the
  lines. The two early returns give the messages \<^verbatim>\<open>Error: Portfolio is empty\<close> and
  \<^verbatim>\<open>Error: Portfolio weights sum to zero\<close> in place of a report. An exception that leaves
  \<^verbatim>\<open>fetch_live_data_batch\<close> would leave \<^verbatim>\<open>analyze_portfolio\<close> too: \<open>Uncaught\<close>.
  Such an exception has no message of \<^verbatim>\<open>analyze_portfolio\<close>'s own, so \<open>error_message\<close>
  gives the empty string for it.
\<close>

record report =
  total_allocation :: rat
  shown_beta :: rat
  shown_return :: rat
  shown_volatility :: rat
  portfolio_risk :: string
  sector_breakdown :: "(string \<times> rat) list"
  risk_breakdown :: "(string \<times> rat) list"

datatype error = EmptyPortfolioError | ZeroWeightError | Uncaught py_exception


definition total_of :: "portfolio \<Rightarrow> rat" where
  "total_of portfolio = sum_list (map snd portfolio)"

text \<open>The state of the loop when it ends, as \<^verbatim>\<open>analyze_portfolio\<close> runs it.\<close>

definition accumulate :: "catalog \<Rightarrow> portfolio \<Rightarrow> acc" where
  "accumulate cat portfolio = portfolio_loop cat (total_of portfolio) portfolio init_acc"

definition make_report :: "rat \<Rightarrow> acc \<Rightarrow> report" where
  "make_report total_weight a =
     \<lparr>total_allocation = total_weight,
      shown_beta = py_round (weighted_beta a) 2,
      shown_return = py_round (weighted_return a) 2,
      shown_volatility = py_round (weighted_volatility a) 2,
      portfolio_risk =
        (if weighted_beta a > 13/10 then ''High''
         else if weighted_beta a > 8/10 then ''Medium'' else ''Low''),
      sector_breakdown = breakdown total_weight (sectors a),
      risk_breakdown = breakdown total_weight (risk_levels a)\<rparr>"

definition analyze_portfolio :: "provider \<Rightarrow> catalog \<Rightarrow> portfolio \<Rightarrow> error + report" where
  "analyze_portfolio download cat portfolio =
     (if portfolio = [] then Inl EmptyPortfolioError
      else
        let total_weight = total_of portfolio
        in if total_weight = 0 then Inl ZeroWeightError
           else
             (case fetch_live_data_batch download (map fst portfolio) of
                Inl e \<Rightarrow> Inl (Uncaught e)
              | Inr live \<Rightarrow>
                  Inr (make_report total_weight
                         (portfolio_loop cat total_weight portfolio init_acc))))"

subsection \<open>Providers and catalogs for the examples\<close>

definition failing_provider :: provider where
  "failing_provider symbols = Inl (ProviderError ''timeout'')"

definition sample_hist :: hist where
  "sample_hist =
     Hist (DF False (Inr [100, 110]))
       (\<lambda>symbol. if symbol = ''AAPL'' then Inr (DF False (Inr [150, 153]))
                 else if symbol = ''JPM'' then Inr (DF True (Inr []))
                 else Inl KeyError)"

definition sample_provider :: provider where
  "sample_provider symbols = Inr sample_hist"


subsection \<open>Notions used in the statements\<close>



text \<open>An exception is raised inside \<^verbatim>\<open>try\<close>: by the download or by the loop.\<close>

definition try_raises :: "provider \<Rightarrow> string list \<Rightarrow> bool" where
  "try_raises download symbols =
     (case download symbols of
        Inl e \<Rightarrow> True
      | Inr hist_data \<Rightarrow> snd (fetch_loop (length symbols) hist_data symbols []) \<noteq> None)"


section \<open>Properties\<close>

subsection \<open>Rounding\<close>




subsection \<open>The fetch\<close>

lemma fetch_returns: "\<exists>data. fetch_live_data_batch download symbols = Inr data"
  by (simp add: fetch_live_data_batch_def split: sum.split prod.split option.split)

lemma mark_absent_map_of:
  "map_of (mark_absent syms data) s = (if s \<in> set syms then Some absent else map_of data s)"
  unfolding mark_absent_def
  by (induction syms arbitrary: data) (auto simp: update_conv')

lemma mark_absent_keys: "fst ` set (mark_absent syms data) = fst ` set data \<union> set syms"
  unfolding mark_absent_def
  by (induction syms arbitrary: data) (auto simp: dom_update)

text \<open>One turn of the loop either stops with an exception or stores an entry and goes on.\<close>

lemma fetch_loop_step:
  "fetch_loop n h (x # xs) data = (data', r) \<Longrightarrow>
     (data' = data \<and> r \<noteq> None) \<or> (\<exists>v. fetch_loop n h xs (AList.update x v data) = (data', r))"
  by (auto simp: Let_def split: sum.splits if_splits)

lemma fetch_loop_keys:
  "fetch_loop n h syms data = (data', r) \<Longrightarrow> fst ` set data' \<subseteq> fst ` set data \<union> set syms"
proof (induction syms arbitrary: data)
  case Nil
  then show ?case by simp
next
  case (Cons x xs)
  from fetch_loop_step[OF Cons.prems] show ?case
  proof
    assume "data' = data \<and> r \<noteq> None"
    then show ?thesis by auto
  next
    assume "\<exists>v. fetch_loop n h xs (AList.update x v data) = (data', r)"
    then obtain v where "fetch_loop n h xs (AList.update x v data) = (data', r)" ..
    from Cons.IH[OF this] show ?thesis by (auto simp: dom_update)
  qed
qed

lemma fetch_loop_keys_done:
  "fetch_loop n h syms data = (data', None) \<Longrightarrow> fst ` set data' = fst ` set data \<union> set syms"
proof (induction syms arbitrary: data)
  case Nil
  then show ?case by simp
next
  case (Cons x xs)
  from fetch_loop_step[OF Cons.prems] obtain v where
    "fetch_loop n h xs (AList.update x v data) = (data', None)" by auto
  from Cons.IH[OF this] show ?case by (auto simp: dom_update)
qed

lemma fetch_loop_empty_frame:
  "fetch_loop n h syms data = (data', None) \<Longrightarrow> frame_of n h s = Inr d \<Longrightarrow> empty d \<Longrightarrow>
   s \<in> set syms \<or> map_of data s = Some absent \<Longrightarrow> map_of data' s = Some absent"
proof (induction syms arbitrary: data)
  case Nil
  then show ?case by simp
next
  case (Cons x xs)
  show ?case
  proof (cases "frame_of n h x")
    case (Inl a)
    with Cons.prems show ?thesis by auto
  next
    case (Inr dx)
    note fr = Inr
    show ?thesis
    proof (cases "empty dx")
      case True
      with Cons.prems fr have run: "fetch_loop n h xs (AList.update x absent data) = (data', None)"
        by simp
      have "s \<in> set xs \<or> map_of (AList.update x absent data) s = Some absent"
        using Cons.prems(4) by (auto simp: update_conv')
      from Cons.IH[OF run Cons.prems(2,3) this] show ?thesis .
    next
      case False
      then have ne: "x \<noteq> s" using fr Cons.prems(2,3) by auto
      from False Cons.prems(1) fr obtain v where
        run: "fetch_loop n h xs (AList.update x v data) = (data', None)"
        by (auto simp: Let_def split: sum.splits)
      have "s \<in> set xs \<or> map_of (AList.update x v data) s = Some absent"
        using Cons.prems(4) ne by (auto simp: update_conv')
      from Cons.IH[OF run Cons.prems(2,3) this] show ?thesis .
    qed
  qed
qed

subsection \<open>The loop over the weight map\<close>





lemma loop_unknown:
  "\<forall>s\<in>fst ` set p. map_of cat s = None \<Longrightarrow> portfolio_loop cat t p a = a"
  by (induction p arbitrary: a) auto






subsection \<open>The analysis\<close>

text \<open>The fetch always returns, so the analysis is its two checks and the report.\<close>

lemma analyze_eq:
  "analyze_portfolio download cat portfolio =
     (if portfolio = [] then Inl EmptyPortfolioError
      else if total_of portfolio = 0 then Inl ZeroWeightError
      else Inr (make_report (total_of portfolio) (accumulate cat portfolio)))"
proof -
  obtain data where "fetch_live_data_batch download (map fst portfolio) = Inr data"
    using fetch_returns by blast
  then show ?thesis
    by (simp add: analyze_portfolio_def accumulate_def Let_def)
qed

section \<open>The claims\<close>





text \<open>
  C9. When the weight map is non-empty, its weights do not sum to zero and the catalog has
  none of its symbols, the analysis returns a report: the three weighted values are 0, the
  risk tier is \<open>Low\<close> and both breakdowns are empty.
\<close>

theorem unknown_only_portfolio:
  assumes "portfolio \<noteq> []" and "total_of portfolio \<noteq> 0"
    and "\<forall>symbol\<in>fst ` set portfolio. map_of cat symbol = None"
  shows "analyze_portfolio download cat portfolio =
           Inr \<lparr>total_allocation = total_of portfolio, shown_beta = 0, shown_return = 0,
                shown_volatility = 0, portfolio_risk = ''Low'',
                sector_breakdown = [], risk_breakdown = []\<rparr>"
proof -
  have "accumulate cat portfolio = init_acc"
    unfolding accumulate_def using assms(3) by (rule loop_unknown)
  then show ?thesis
    using assms(1,2)
    by (simp add: analyze_eq make_report_def init_acc_def breakdown_def py_round_def
        round_half_even_def)
qed

theorem unknown_only_portfolio_witness:
  "[(''ZZZZ'', 60), (''QQQQ'', 40)] \<noteq> ([] :: portfolio) \<and>
   total_of [(''ZZZZ'', 60), (''QQQQ'', 40)] \<noteq> 0 \<and>
   map_of stocks ''ZZZZ'' = None \<and> map_of stocks ''QQQQ'' = None \<and>
   analyze_portfolio failing_provider stocks [(''ZZZZ'', 60), (''QQQQ'', 40)] =
     Inr \<lparr>total_allocation = 100, shown_beta = 0, shown_return = 0,
          shown_volatility = 0, portfolio_risk = ''Low'',
          sector_breakdown = [], risk_breakdown = []\<rparr>"
proof -
  have h1: "[(''ZZZZ'', 60), (''QQQQ'', 40)] \<noteq> ([] :: portfolio)" by simp
  have h2: "total_of [(''ZZZZ'', 60), (''QQQQ'', 40)] \<noteq> 0" by (simp add: total_of_def)
  have h3: "\<forall>symbol\<in>fst ` set [(''ZZZZ'', 60), (''QQQQ'', 40 :: rat)]. map_of stocks symbol = None"
    by (simp add: stocks_def)
  have t: "total_of [(''ZZZZ'', 60), (''QQQQ'', 40)] = 100" by (simp add: total_of_def)
  show ?thesis
    using h1 h2 h3 unknown_only_portfolio [OF h1 h2 h3, of failing_provider] by (simp add: t)
qed

lemma sample_report:
  "analyze_portfolio sample_provider stocks [(''AAPL'', 40), (''JPM'', 60)] =
     Inr \<lparr>total_allocation = 100, shown_beta = 108/100, shown_return = 132/10,
          shown_volatility = 22/100, portfolio_risk = ''Medium'',
          sector_breakdown = [(''Technology'', 40), (''Financial'', 60)],
          risk_breakdown = [(''Medium'', 40), (''Low'', 60)]\<rparr>"
  by code_simp

text \<open>
  C5. The result of the analysis is the same for any two providers, whatever they return
  or raise: the fetched data is never read. No exception of the provider leaves the
  analysis, and a non-empty weight map with a non-zero sum gets the full report, computed
  from the catalog and the weights alone.
\<close>

theorem report_independent_of_provider:
  "analyze_portfolio download cat portfolio = analyze_portfolio download' cat portfolio \<and>
   (\<forall>e. analyze_portfolio download cat portfolio \<noteq> Inl (Uncaught e)) \<and>
   (portfolio \<noteq> [] \<and> total_of portfolio \<noteq> 0 \<longrightarrow>
      analyze_portfolio download cat portfolio =
        Inr (make_report (total_of portfolio) (accumulate cat portfolio)))"
  by (simp add: analyze_eq)

theorem report_independent_of_provider_witness:
  "try_raises failing_provider [''AAPL'', ''JPM''] \<and>
   \<not> try_raises sample_provider [''AAPL'', ''JPM''] \<and>
   [(''AAPL'', 40), (''JPM'', 60)] \<noteq> ([] :: portfolio) \<and>
   total_of [(''AAPL'', 40), (''JPM'', 60)] \<noteq> 0 \<and>
   analyze_portfolio failing_provider stocks [(''AAPL'', 40), (''JPM'', 60)] =
     Inr \<lparr>total_allocation = 100, shown_beta = 108/100, shown_return = 132/10,
          shown_volatility = 22/100, portfolio_risk = ''Medium'',
          sector_breakdown = [(''Technology'', 40), (''Financial'', 60)],
          risk_breakdown = [(''Medium'', 40), (''Low'', 60)]\<rparr>"
proof -
  have a: "try_raises failing_provider [''AAPL'', ''JPM'']"
    by (simp add: try_raises_def failing_provider_def)
  have b: "\<not> try_raises sample_provider [''AAPL'', ''JPM'']"
    by code_simp
  have c: "total_of [(''AAPL'', 40), (''JPM'', 60)] \<noteq> 0" by (simp add: total_of_def)
  show ?thesis
    using a b c sample_report
      report_independent_of_provider
        [of failing_provider stocks "[(''AAPL'', 40), (''JPM'', 60)]" sample_provider]
    by simp
qed

text \<open>
  C7. A weight map with one holding whose symbol is in the catalog, with a non-zero weight,
  passes the catalog values through: the accumulated weighted beta, return and volatility
  are the entry's own, and the report shows them rounded to two places. For \<^verbatim>\<open>{"AAPL": 100}\<close>
  the report shows the catalog's 1.2 and 15.0 unchanged.
\<close>

theorem single_holding_passes_through:
  assumes "map_of cat symbol = Some stock" and "weight \<noteq> 0"
  shows "weighted_beta (accumulate cat [(symbol, weight)]) = beta stock \<and>
         weighted_return (accumulate cat [(symbol, weight)]) = return stock \<and>
         weighted_volatility (accumulate cat [(symbol, weight)]) = volatility stock \<and>
         (\<exists>r. analyze_portfolio download cat [(symbol, weight)] = Inr r \<and>
              shown_beta r = py_round (beta stock) 2 \<and>
              shown_return r = py_round (return stock) 2)"
  using assms
  by (simp add: accumulate_def total_of_def init_acc_def analyze_eq make_report_def)

theorem single_holding_passes_through_witness:
  "map_of stocks ''AAPL'' = Some (mk_stock ''Apple Inc.'' ''Technology'' (12/10) 15 ''Medium'' (25/100)) \<and>
   (100 :: rat) \<noteq> 0 \<and>
   beta (mk_stock ''Apple Inc.'' ''Technology'' (12/10) 15 ''Medium'' (25/100)) = 12/10 \<and>
   return (mk_stock ''Apple Inc.'' ''Technology'' (12/10) 15 ''Medium'' (25/100)) = 15 \<and>
   weighted_beta (accumulate stocks [(''AAPL'', 100)]) = 12/10 \<and>
   weighted_return (accumulate stocks [(''AAPL'', 100)]) = 15 \<and>
   (\<exists>r. analyze_portfolio sample_provider stocks [(''AAPL'', 100)] = Inr r \<and>
        shown_beta r = 12/10 \<and> shown_return r = 15)"
proof -
  let ?aapl = "mk_stock ''Apple Inc.'' ''Technology'' (12/10) 15 ''Medium'' (25/100)"
  have h: "map_of stocks ''AAPL'' = Some ?aapl"
    by (simp add: stocks_def)
  have n: "(100 :: rat) \<noteq> 0" by simp
  have b: "beta ?aapl = 12/10" and r: "return ?aapl = 15"
    by (simp_all add: mk_stock_def)
  have r1: "py_round (12/10) 2 = 12/10" by code_simp
  have r2: "py_round 15 2 = 15" by code_simp
  from single_holding_passes_through [OF h n, of sample_provider]
  have "weighted_beta (accumulate stocks [(''AAPL'', 100)]) = 12/10 \<and>
        weighted_return (accumulate stocks [(''AAPL'', 100)]) = 15 \<and>
        (\<exists>r. analyze_portfolio sample_provider stocks [(''AAPL'', 100)] = Inr r \<and>
           shown_beta r = 12/10 \<and> shown_return r = 15)"
    unfolding b r r1 r2 by blast
  with h n b r show ?thesis by blast
qed




lemma fetch_raised_all_absent:
  assumes "try_raises download symbols"
  shows "fetch_live_data_batch download symbols = Inr data \<Longrightarrow>
         fst ` set data = set symbols \<and> (\<forall>s\<in>set symbols. map_of data s = Some absent)"
proof (cases "download symbols")
  case (Inl e)
  assume "fetch_live_data_batch download symbols = Inr data"
  with Inl have "data = mark_absent symbols []"
    by (simp add: fetch_live_data_batch_def)
  then show ?thesis by (simp add: mark_absent_keys mark_absent_map_of)
next
  case (Inr h)
  assume res: "fetch_live_data_batch download symbols = Inr data"
  from assms Inr obtain part e where
    run: "fetch_loop (length symbols) h symbols [] = (part, Some e)"
    by (cases "fetch_loop (length symbols) h symbols []") (auto simp: try_raises_def)
  with res Inr have d: "data = mark_absent symbols part"
    by (simp add: fetch_live_data_batch_def)
  from fetch_loop_keys[OF run] have "fst ` set part \<subseteq> set symbols" by simp
  with d show ?thesis by (auto simp: mark_absent_keys mark_absent_map_of)
qed

lemma fetch_done_keys:
  assumes "\<not> try_raises download symbols"
    and "fetch_live_data_batch download symbols = Inr data"
  shows "\<exists>h. download symbols = Inr h \<and>
             fetch_loop (length symbols) h symbols [] = (data, None)"
proof (cases "download symbols")
  case (Inl e)
  with assms(1) show ?thesis by (simp add: try_raises_def)
next
  case (Inr h)
  with assms(1) obtain part where
    run: "fetch_loop (length symbols) h symbols [] = (part, None)"
    by (cases "fetch_loop (length symbols) h symbols []") (auto simp: try_raises_def)
  with assms(2) Inr have "data = part" by (simp add: fetch_live_data_batch_def)
  with run Inr show ?thesis by simp
qed

lemma sample_fetch:
  "fetch_live_data_batch sample_provider [''AAPL'', ''JPM''] =
     Inr [(''AAPL'', \<lparr>price = Some (Fin 153), daily_change = Some (Fin 2)\<rparr>),
          (''JPM'', absent)]"
  by code_simp

lemma sample_fetch_raised:
  "try_raises sample_provider [''AAPL'', ''JPM'', ''ZZZZ''] \<and>
   fetch_live_data_batch sample_provider [''AAPL'', ''JPM'', ''ZZZZ''] =
     Inr [(''AAPL'', absent), (''JPM'', absent), (''ZZZZ'', absent)]"
  by code_simp

lemma failing_fetch:
  "try_raises failing_provider [''AAPL'', ''JPM''] \<and>
   fetch_live_data_batch failing_provider [''AAPL'', ''JPM''] =
     Inr [(''AAPL'', absent), (''JPM'', absent)]"
  by code_simp

text \<open>
  C6. For every list of symbols and every provider, \<^verbatim>\<open>fetch_live_data_batch\<close> returns a
  dictionary and raises nothing; the dictionary has an entry for exactly the requested
  symbols. When the download or the loop raises, every requested symbol is mapped to the
  absent entry (price and daily change both \<^verbatim>\<open>None\<close>). A requested symbol whose data frame
  is empty is mapped to the absent entry.
\<close>

theorem fetch_never_raises:
  "\<exists>data. fetch_live_data_batch download symbols = Inr data \<and>
      fst ` set data = set symbols \<and>
      (try_raises download symbols \<longrightarrow> (\<forall>s\<in>set symbols. map_of data s = Some absent)) \<and>
      (\<forall>h s d. download symbols = Inr h \<and> s \<in> set symbols \<and>
                frame_of (length symbols) h s = Inr d \<and> empty d \<longrightarrow>
                map_of data s = Some absent)"
proof -
  obtain data where res: "fetch_live_data_batch download symbols = Inr data"
    using fetch_returns by blast
  show ?thesis
  proof (cases "try_raises download symbols")
    case True
    from fetch_raised_all_absent[OF True res] res show ?thesis by blast
  next
    case False
    from fetch_done_keys[OF False res] obtain h where
      dl: "download symbols = Inr h"
      and run: "fetch_loop (length symbols) h symbols [] = (data, None)" by blast
    have keys: "fst ` set data = set symbols"
      using fetch_loop_keys_done[OF run] by simp
    have emp: "map_of data s = Some absent"
      if "s \<in> set symbols" "frame_of (length symbols) h s = Inr d" "empty d" for s d
      using fetch_loop_empty_frame[OF run that(2,3)] that(1) by simp
    from res keys False emp dl show ?thesis by auto
  qed
qed

theorem fetch_never_raises_witness:
  "try_raises failing_provider [''AAPL'', ''JPM''] \<and>
   fetch_live_data_batch failing_provider [''AAPL'', ''JPM''] =
     Inr [(''AAPL'', absent), (''JPM'', absent)] \<and>
   try_raises sample_provider [''AAPL'', ''JPM'', ''ZZZZ''] \<and>
   fetch_live_data_batch sample_provider [''AAPL'', ''JPM'', ''ZZZZ''] =
     Inr [(''AAPL'', absent), (''JPM'', absent), (''ZZZZ'', absent)] \<and>
   sample_provider [''AAPL'', ''JPM''] = Inr sample_hist \<and>
   frame_of (length [''AAPL'', ''JPM'']) sample_hist ''JPM'' = Inr (DF True (Inr [])) \<and>
   empty (DF True (Inr [])) \<and>
   (\<exists>data. fetch_live_data_batch sample_provider [''AAPL'', ''JPM''] = Inr data \<and>
      map_of data ''JPM'' = Some absent \<and>
      map_of data ''AAPL'' = Some \<lparr>price = Some (Fin 153), daily_change = Some (Fin 2)\<rparr>)"
proof -
  have dl: "sample_provider [''AAPL'', ''JPM''] = Inr sample_hist"
    by (simp add: sample_provider_def)
  have fr: "frame_of (length [''AAPL'', ''JPM'']) sample_hist ''JPM'' = Inr (DF True (Inr []))"
    by (simp add: frame_of_def sample_hist_def)
  from fetch_never_raises [of sample_provider "[''AAPL'', ''JPM'']"]
  obtain data where res: "fetch_live_data_batch sample_provider [''AAPL'', ''JPM''] = Inr data"
    and emp: "\<And>h s d. sample_provider [''AAPL'', ''JPM''] = Inr h \<Longrightarrow> s \<in> set [''AAPL'', ''JPM''] \<Longrightarrow>
                frame_of (length [''AAPL'', ''JPM'']) h s = Inr d \<Longrightarrow> empty d \<Longrightarrow>
                map_of data s = Some absent"
    by blast
  have jpm: "map_of data ''JPM'' = Some absent"
    by (rule emp[OF dl _ fr]) simp_all
  have aapl: "map_of data ''AAPL'' = Some \<lparr>price = Some (Fin 153), daily_change = Some (Fin 2)\<rparr>"
    using res sample_fetch by auto
  from res jpm aapl have
    "\<exists>data. fetch_live_data_batch sample_provider [''AAPL'', ''JPM''] = Inr data \<and>
      map_of data ''JPM'' = Some absent \<and>
      map_of data ''AAPL'' = Some \<lparr>price = Some (Fin 153), daily_change = Some (Fin 2)\<rparr>"
    by blast
  with failing_fetch sample_fetch_raised dl fr show ?thesis by simp
qed


























end
